theory Spec2Isabelle
  imports Main "HOL-Library.Multiset"
begin

section \<open>Data model of package google (resources.go)\<close>

text \<open>
  \<^verbatim>\<open>type ResourceType int\<close> with its \<^verbatim>\<open>iota\<close> constants, in the order of the source.
\<close>

datatype ResourceType =
    ComputeInstance
  | ComputeFirewall
  | ComputeNetwork
  | ComputeHealthCheck
  | ComputeInstanceGroup
  | ComputeInstanceIAMPolicy
  | ComputeBackendBucket
  | ComputeBackendService
  | ComputeSSLCertificate
  | ComputeTargetHTTPProxy
  | ComputeTargetHTTPSProxy
  | ComputeURLMap
  | ComputeGlobalForwardingRule
  | ComputeForwardingRule
  | ComputeDisk
  | DNSManagedZone
  | DNSRecordSet
  | ProjectIAMCustomRole
  | StorageBucket
  | StorageBucketIAMPolicy
  | SQLDatabaseInstance

definition noFilter :: string where
  "noFilter = []"

text \<open>
  Go errors. A reader reports a \<open>Cause\<close>; \<^verbatim>\<open>errors.Wrap(err, message)\<close> on a non-nil
  \<open>err\<close> is the value \<open>Wrap err message\<close>.
\<close>

datatype error = Cause string | Wrap error string

text \<open>
  Modelled from the spec: \<^verbatim>\<open>filter.Filter\<close> and its tags are declared in package filter,
  outside this file. A FilterSpec is a sequence of (name, value) tag predicates; the
  source reads \<^verbatim>\<open>filters.Tags\<close>, and of each tag \<^verbatim>\<open>Name\<close> and \<^verbatim>\<open>Value\<close>. The strategies
  receive a pointer to a filter; the model covers the calls where it points to a value.
\<close>

record tag =
  Name :: string
  Value :: string

record Filter =
  Tags :: "tag list"

text \<open>
  The items a listing returns (\<^verbatim>\<open>compute.Instance\<close>, \<^verbatim>\<open>compute.Firewall\<close>,
  \<^verbatim>\<open>dns.ManagedZone\<close>, ...): the source reads only their \<^verbatim>\<open>Name\<close>, and of a resource
  record set also its \<^verbatim>\<open>Type\<close>.
\<close>

record item =
  Name :: string

record rrset = item +
  Type :: string

text \<open>
  A Go \<^verbatim>\<open>map[string][]T\<close> returned by a zoned listing is represented by its key/value
  pairs in the order in which the \<^verbatim>\<open>range\<close> statement of the caller visits them.
  Go leaves that order unspecified, so two lists with the same pairs and unique keys
  stand for the same map value.
\<close>

type_synonym 'a zoned = "(string \<times> 'a list) list"

text \<open>\<^verbatim>\<open>context.Context\<close> is opaque to this file: it is only handed to the reader.\<close>

datatype Context = Ctx nat

text \<open>
  The reader \<^verbatim>\<open>g.gcpr\<close>: its \<^verbatim>\<open>project\<close> field and one listing method per upstream
  call, each returning its items or an error. The methods are declared outside this
  file, so they are fields of the record: any behaviour of the upstream is a value.
\<close>

record GCPReader =
  project :: string
  ListInstances :: "Context \<Rightarrow> string \<Rightarrow> error + item zoned"
  ListFirewalls :: "Context \<Rightarrow> string \<Rightarrow> error + item list"
  ListNetworks :: "Context \<Rightarrow> string \<Rightarrow> error + item list"
  ListHealthChecks :: "Context \<Rightarrow> string \<Rightarrow> error + item list"
  ListInstanceGroups :: "Context \<Rightarrow> string \<Rightarrow> error + item zoned"
  ListBackendServices :: "Context \<Rightarrow> string \<Rightarrow> error + item list"
  ListURLMaps :: "Context \<Rightarrow> string \<Rightarrow> error + item list"
  ListTargetHTTPProxies :: "Context \<Rightarrow> string \<Rightarrow> error + item list"
  ListTargetHTTPSProxies :: "Context \<Rightarrow> string \<Rightarrow> error + item list"
  ListSSLCertificates :: "Context \<Rightarrow> string \<Rightarrow> error + item list"
  ListGlobalForwardingRules :: "Context \<Rightarrow> string \<Rightarrow> error + item list"
  ListForwardingRules :: "Context \<Rightarrow> string \<Rightarrow> error + item list"
  ListDisks :: "Context \<Rightarrow> string \<Rightarrow> error + item zoned"
  ListBuckets :: "Context \<Rightarrow> error + item list"
  ListStorageInstances :: "Context \<Rightarrow> string \<Rightarrow> error + item list"
  ListManagedZones :: "Context \<Rightarrow> error + item list"
  ListResourceRecordSets :: "Context \<Rightarrow> string list \<Rightarrow> error + rrset zoned"
  ListBackendBuckets :: "Context \<Rightarrow> string \<Rightarrow> error + item list"
  ListProjectIAMCustomRoles :: "Context \<Rightarrow> string \<Rightarrow> error + item list"

text \<open>
  The provider \<^verbatim>\<open>g\<close>: the reader it holds and the value of \<^verbatim>\<open>g.Project()\<close>, a method
  declared outside this file.
\<close>

record google =
  Project :: string
  gcpr :: GCPReader

text \<open>
  Modelled from the spec: \<^verbatim>\<open>provider.Resource\<close> and \<^verbatim>\<open>provider.NewResource\<close> are declared
  in package provider, outside this file. A resource handle holds the synthesized
  identifier, the resource type it was listed for and a reference to the provider;
  \<^verbatim>\<open>ID()\<close> returns the identifier.
\<close>

record resource =
  ID :: string
  Type :: string
  Provider :: google

definition NewResource :: "string \<Rightarrow> string \<Rightarrow> google \<Rightarrow> resource" where
  "NewResource ident resourceType g = \<lparr>ID = ident, Type = resourceType, Provider = g\<rparr>"

text \<open>
  The calls a strategy makes on the reader, in order, with their arguments (the context
  left out): the effect of a strategy besides its result.
\<close>

datatype call =
    CallListInstances string
  | CallListFirewalls string
  | CallListNetworks string
  | CallListHealthChecks string
  | CallListInstanceGroups string
  | CallListBackendServices string
  | CallListURLMaps string
  | CallListTargetHTTPProxies string
  | CallListTargetHTTPSProxies string
  | CallListSSLCertificates string
  | CallListGlobalForwardingRules string
  | CallListForwardingRules string
  | CallListDisks string
  | CallListBuckets
  | CallListStorageInstances string
  | CallListManagedZones
  | CallListResourceRecordSets "string list"
  | CallListBackendBuckets string
  | CallListProjectIAMCustomRoles string

text \<open>
  \<^verbatim>\<open>rtFn\<close>: a strategy returns \<^verbatim>\<open>(nil, err)\<close>, here \<open>Inl err\<close>, or
  \<^verbatim>\<open>(resources, nil)\<close>, here \<open>Inr resources\<close>, together with the reader calls it made.
\<close>

type_synonym rtFn =
  "Context \<Rightarrow> google \<Rightarrow> string \<Rightarrow> Filter \<Rightarrow> call list \<times> (error + resource list)"

section \<open>The filter compiler\<close>

text \<open>
  The buffer starts empty; every tag appends
  \<^verbatim>\<open>fmt.Sprintf("(labels.%s=%s) ", t.Name, t.Value)\<close>.
\<close>

definition initializeFilter :: "Filter \<Rightarrow> string" where
  "initializeFilter filters =
     fold (\<lambda>t b. b @ ''(labels.'' @ tag.Name t @ ''='' @ tag.Value t @ '') '')
       (Tags filters) []"

section \<open>The fetch strategies\<close>

definition computeInstance :: rtFn where
  "computeInstance ctx g resourceType filters =
     (let f = initializeFilter filters in
      case ListInstances (gcpr g) ctx f of
        Inl err \<Rightarrow> ([CallListInstances f], Inl (Wrap err ''unable to list instances from reader''))
      | Inr instancesList \<Rightarrow>
          ([CallListInstances f],
           Inr (fold (\<lambda>(z, instances) resources.
                  fold (\<lambda>instance resources.
                      resources @ [NewResource (Project g @ ''/'' @ z @ ''/'' @ item.Name instance) resourceType g])
                    instances resources)
                instancesList [])))"

definition computeFirewall :: rtFn where
  "computeFirewall ctx g resourceType filters =
     (case ListFirewalls (gcpr g) ctx noFilter of
        Inl err \<Rightarrow> ([CallListFirewalls noFilter], Inl (Wrap err ''unable to list firewalls from reader''))
      | Inr firewalls \<Rightarrow>
          ([CallListFirewalls noFilter],
           Inr (fold (\<lambda>firewall resources. resources @ [NewResource (item.Name firewall) resourceType g])
                firewalls [])))"

definition computeNetwork :: rtFn where
  "computeNetwork ctx g resourceType filters =
     (case ListNetworks (gcpr g) ctx noFilter of
        Inl err \<Rightarrow> ([CallListNetworks noFilter], Inl (Wrap err ''unable to list networks from reader''))
      | Inr networks \<Rightarrow>
          ([CallListNetworks noFilter],
           Inr (fold (\<lambda>network resources. resources @ [NewResource (item.Name network) resourceType g])
                networks [])))"

definition computeHealthCheck :: rtFn where
  "computeHealthCheck ctx g resourceType filters =
     (case ListHealthChecks (gcpr g) ctx noFilter of
        Inl err \<Rightarrow> ([CallListHealthChecks noFilter], Inl (Wrap err ''unable to list health checks from reader''))
      | Inr checks \<Rightarrow>
          ([CallListHealthChecks noFilter],
           Inr (fold (\<lambda>check resources. resources @ [NewResource (item.Name check) resourceType g])
                checks [])))"

definition computeInstanceGroup :: rtFn where
  "computeInstanceGroup ctx g resourceType filters =
     (case ListInstanceGroups (gcpr g) ctx noFilter of
        Inl err \<Rightarrow> ([CallListInstanceGroups noFilter], Inl (Wrap err ''unable to list instance groups from reader''))
      | Inr instanceGroups \<Rightarrow>
          ([CallListInstanceGroups noFilter],
           Inr (fold (\<lambda>(z, groups) resources.
                  fold (\<lambda>group resources.
                      resources @ [NewResource (Project g @ ''/'' @ z @ ''/'' @ item.Name group) resourceType g])
                    groups resources)
                instanceGroups [])))"

definition computeBackendService :: rtFn where
  "computeBackendService ctx g resourceType filters =
     (case ListBackendServices (gcpr g) ctx noFilter of
        Inl err \<Rightarrow> ([CallListBackendServices noFilter], Inl (Wrap err ''unable to list backend services from reader''))
      | Inr backends \<Rightarrow>
          ([CallListBackendServices noFilter],
           Inr (fold (\<lambda>backend resources. resources @ [NewResource (item.Name backend) resourceType g])
                backends [])))"

definition computeURLMap :: rtFn where
  "computeURLMap ctx g resourceType filters =
     (case ListURLMaps (gcpr g) ctx noFilter of
        Inl err \<Rightarrow> ([CallListURLMaps noFilter], Inl (Wrap err ''unable to list URL maps from reader''))
      | Inr maps \<Rightarrow>
          ([CallListURLMaps noFilter],
           Inr (fold (\<lambda>urlMap resources. resources @ [NewResource (item.Name urlMap) resourceType g])
                maps [])))"

definition computeTargetHTTPProxy :: rtFn where
  "computeTargetHTTPProxy ctx g resourceType filters =
     (case ListTargetHTTPProxies (gcpr g) ctx noFilter of
        Inl err \<Rightarrow> ([CallListTargetHTTPProxies noFilter], Inl (Wrap err ''unable to list target http proxies from reader''))
      | Inr targets \<Rightarrow>
          ([CallListTargetHTTPProxies noFilter],
           Inr (fold (\<lambda>target resources. resources @ [NewResource (item.Name target) resourceType g])
                targets [])))"

definition computeTargetHTTPSProxy :: rtFn where
  "computeTargetHTTPSProxy ctx g resourceType filters =
     (case ListTargetHTTPSProxies (gcpr g) ctx noFilter of
        Inl err \<Rightarrow> ([CallListTargetHTTPSProxies noFilter], Inl (Wrap err ''unable to list target https proxies from reader''))
      | Inr targets \<Rightarrow>
          ([CallListTargetHTTPSProxies noFilter],
           Inr (fold (\<lambda>target resources. resources @ [NewResource (item.Name target) resourceType g])
                targets [])))"

definition computeSSLCertificate :: rtFn where
  "computeSSLCertificate ctx g resourceType filters =
     (case ListSSLCertificates (gcpr g) ctx noFilter of
        Inl err \<Rightarrow> ([CallListSSLCertificates noFilter], Inl (Wrap err ''unable to list SSL certificates from reader''))
      | Inr certs \<Rightarrow>
          ([CallListSSLCertificates noFilter],
           Inr (fold (\<lambda>cert resources. resources @ [NewResource (item.Name cert) resourceType g])
                certs [])))"

definition computeGlobalForwardingRule :: rtFn where
  "computeGlobalForwardingRule ctx g resourceType filters =
     (let f = initializeFilter filters in
      case ListGlobalForwardingRules (gcpr g) ctx f of
        Inl err \<Rightarrow> ([CallListGlobalForwardingRules f], Inl (Wrap err ''unable to list global forwarding rules from reader''))
      | Inr rules \<Rightarrow>
          ([CallListGlobalForwardingRules f],
           Inr (fold (\<lambda>rule resources. resources @ [NewResource (item.Name rule) resourceType g])
                rules [])))"

definition computeForwardingRule :: rtFn where
  "computeForwardingRule ctx g resourceType filters =
     (let f = initializeFilter filters in
      case ListForwardingRules (gcpr g) ctx f of
        Inl err \<Rightarrow> ([CallListForwardingRules f], Inl (Wrap err ''unable to list global forwarding rules from reader''))
      | Inr rules \<Rightarrow>
          ([CallListForwardingRules f],
           Inr (fold (\<lambda>rule resources. resources @ [NewResource (item.Name rule) resourceType g])
                rules [])))"

definition computeDisk :: rtFn where
  "computeDisk ctx g resourceType filters =
     (let f = initializeFilter filters in
      case ListDisks (gcpr g) ctx f of
        Inl err \<Rightarrow> ([CallListDisks f], Inl (Wrap err ''unable to list disks from reader''))
      | Inr disksList \<Rightarrow>
          ([CallListDisks f],
           Inr (fold (\<lambda>(z, disks) resources.
                  fold (\<lambda>disk resources.
                      resources @ [NewResource (z @ ''/'' @ item.Name disk) resourceType g])
                    disks resources)
                disksList [])))"

definition storageBucket :: rtFn where
  "storageBucket ctx g resourceType filters =
     (case ListBuckets (gcpr g) ctx of
        Inl err \<Rightarrow> ([CallListBuckets], Inl (Wrap err ''unable to list global forwarding rules from reader''))
      | Inr buckets \<Rightarrow>
          ([CallListBuckets],
           Inr (fold (\<lambda>bucket resources. resources @ [NewResource (item.Name bucket) resourceType g])
                buckets [])))"

definition sqlDatabaseInstance :: rtFn where
  "sqlDatabaseInstance ctx g resourceType filters =
     (case ListStorageInstances (gcpr g) ctx noFilter of
        Inl err \<Rightarrow> ([CallListStorageInstances noFilter], Inl (Wrap err ''unable to list sql storage instances rules from reader''))
      | Inr instances \<Rightarrow>
          ([CallListStorageInstances noFilter],
           Inr (fold (\<lambda>instance resources. resources @ [NewResource (item.Name instance) resourceType g])
                instances [])))"

definition managedZoneDNS :: rtFn where
  "managedZoneDNS ctx g resourceType filters =
     (case ListManagedZones (gcpr g) ctx of
        Inl err \<Rightarrow> ([CallListManagedZones], Inl (Wrap err ''unable to list DNS managed zone from reader''))
      | Inr zones \<Rightarrow>
          ([CallListManagedZones],
           Inr (fold (\<lambda>zone resources. resources @ [NewResource (item.Name zone) resourceType g])
                zones [])))"

text \<open>
  The two-stage strategy: the managed zones first, by a direct call of \<open>managedZoneDNS\<close>
  with the same arguments, then the record sets of the zones' identifiers.
\<close>

definition recordSetDNS :: rtFn where
  "recordSetDNS ctx g resourceType filters =
     (case managedZoneDNS ctx g resourceType filters of
        (calls, Inl err) \<Rightarrow> (calls, Inl (Wrap err ''unable to previously fetch managed zones''))
      | (calls, Inr managedZones) \<Rightarrow>
          (let zones = fold (\<lambda>zone zones. zones @ [ID zone]) managedZones [] in
           case ListResourceRecordSets (gcpr g) ctx zones of
             Inl err \<Rightarrow>
               (calls @ [CallListResourceRecordSets zones],
                Inl (Wrap err ''unable to list resources record se record sett from reader''))
           | Inr rrsetsList \<Rightarrow>
               (calls @ [CallListResourceRecordSets zones],
                Inr (fold (\<lambda>(z, rrsets) resources.
                       fold (\<lambda>rrset resources.
                           resources @ [NewResource (z @ ''/'' @ item.Name rrset @ ''/'' @ rrset.Type rrset) resourceType g])
                         rrsets resources)
                     rrsetsList []))))"

definition computeBackendBucket :: rtFn where
  "computeBackendBucket ctx g resourceType filters =
     (case ListBackendBuckets (gcpr g) ctx noFilter of
        Inl err \<Rightarrow> ([CallListBackendBuckets noFilter], Inl (Wrap err ''unable to list backend buckets from reader''))
      | Inr backends \<Rightarrow>
          ([CallListBackendBuckets noFilter],
           Inr (fold (\<lambda>backend resources. resources @ [NewResource (item.Name backend) resourceType g])
                backends [])))"

definition projectIAMCustomRole :: rtFn where
  "projectIAMCustomRole ctx g resourceType filters =
     (let parent = ''projects/'' @ project (gcpr g) in
      case ListProjectIAMCustomRoles (gcpr g) ctx parent of
        Inl err \<Rightarrow> ([CallListProjectIAMCustomRoles parent], Inl (Wrap err ''unable to list project IAM custom roles from reader''))
      | Inr roles \<Rightarrow>
          ([CallListProjectIAMCustomRoles parent],
           Inr (fold (\<lambda>role resources. resources @ [NewResource (item.Name role) resourceType g])
                roles [])))"

definition storageBucketIAMPolicy :: rtFn where
  "storageBucketIAMPolicy ctx g resourceType filters =
     (case ListBuckets (gcpr g) ctx of
        Inl err \<Rightarrow> ([CallListBuckets], Inl (Wrap err ''unable to list bucket policies custom roles from reader''))
      | Inr buckets \<Rightarrow>
          ([CallListBuckets],
           Inr (fold (\<lambda>bucket resources. resources @ [NewResource (item.Name bucket) resourceType g])
                buckets [])))"

definition computeInstanceIAMPolicy :: rtFn where
  "computeInstanceIAMPolicy ctx g resourceType filters =
     (let f = initializeFilter filters in
      case ListInstances (gcpr g) ctx f of
        Inl err \<Rightarrow> ([CallListInstances f], Inl (Wrap err ''unable to list compute instances from reader''))
      | Inr list \<Rightarrow>
          ([CallListInstances f],
           Inr (fold (\<lambda>(zone, instances) resources.
                  fold (\<lambda>instance resources.
                      resources @ [NewResource (''projects/'' @ Project g @ ''/zones/'' @ zone @ ''/instances/'' @ item.Name instance) resourceType g])
                    instances resources)
                list [])))"

text \<open>The registry: the package-level map from resource type to strategy.\<close>

fun resources :: "ResourceType \<Rightarrow> rtFn option" where
  "resources ComputeInstance = Some computeInstance"
| "resources ComputeFirewall = Some computeFirewall"
| "resources ComputeNetwork = Some computeNetwork"
| "resources ComputeHealthCheck = Some computeHealthCheck"
| "resources ComputeInstanceGroup = Some computeInstanceGroup"
| "resources ComputeInstanceIAMPolicy = Some computeInstanceIAMPolicy"
| "resources ComputeBackendService = Some computeBackendService"
| "resources ComputeBackendBucket = Some computeBackendBucket"
| "resources ComputeSSLCertificate = Some computeSSLCertificate"
| "resources ComputeTargetHTTPProxy = Some computeTargetHTTPProxy"
| "resources ComputeTargetHTTPSProxy = Some computeTargetHTTPSProxy"
| "resources ComputeURLMap = Some computeURLMap"
| "resources ComputeGlobalForwardingRule = Some computeGlobalForwardingRule"
| "resources ComputeForwardingRule = Some computeForwardingRule"
| "resources ComputeDisk = Some computeDisk"
| "resources DNSManagedZone = Some managedZoneDNS"
| "resources DNSRecordSet = Some recordSetDNS"
| "resources ProjectIAMCustomRole = Some projectIAMCustomRole"
| "resources StorageBucket = Some storageBucket"
| "resources StorageBucketIAMPolicy = Some storageBucketIAMPolicy"
| "resources SQLDatabaseInstance = Some sqlDatabaseInstance"

section \<open>Notions of the specification\<close>

text \<open>
  The specification's words for the filter compiler: a predicate's group
  \<^verbatim>\<open>(labels.<name>=<value>)\<close>, and strings joined by a separator (Go's
  \<^verbatim>\<open>strings.Join\<close>). The code is compared with them below.
\<close>

definition labelGroup :: "tag \<Rightarrow> string" where
  "labelGroup t = ''(labels.'' @ tag.Name t @ ''='' @ tag.Value t @ '')''"

fun joinWith :: "string \<Rightarrow> string list \<Rightarrow> string" where
  "joinWith sep [] = []"
| "joinWith sep [s] = s"
| "joinWith sep (s # t # ss) = s @ sep @ joinWith sep (t # ss)"

text \<open>
  The resource types the specification lists as flat listings without filter support.
\<close>

definition flatListings :: "ResourceType list" where
  "flatListings =
     [ComputeNetwork, ComputeFirewall, ComputeHealthCheck, ComputeBackendService,
      ComputeBackendBucket, ComputeURLMap, ComputeTargetHTTPProxy, ComputeTargetHTTPSProxy,
      ComputeSSLCertificate, StorageBucket, SQLDatabaseInstance, DNSManagedZone]"

text \<open>
  Two runs against the same upstream. What a consumer correlates on is a handle's
  identifier and type. \<open>sameMap\<close>: two representations of one Go map (unique keys, the
  same pairs, in any order). \<open>sameUpstream\<close>: two readers that answer every call with
  the same error, the same sequence or the same map. \<open>sameHandles\<close>: the same failure,
  or the same handles up to their order; \<open>sameSequence\<close>: or in the same order.
  \<open>zonedListings\<close> are the resource types whose strategy ranges over a Go map.
  \<open>zonedHandles\<close>: the handles of a zoned collection as it is ranged over, key after
  key, and under a key item after item. \<open>keyOrderOnly\<close>: two outcomes are the handles
  of one map under an identifier scheme, each in the order its run visited the keys;
  they are the same sequence when the keys were visited in the same order, as they are
  when the map has at most one key.
\<close>

definition handle :: "resource \<Rightarrow> string \<times> string" where
  "handle r = (ID r, resource.Type r)"

definition sameMap :: "'a zoned \<Rightarrow> 'a zoned \<Rightarrow> bool" where
  "sameMap m1 m2 \<longleftrightarrow> distinct (map fst m1) \<and> distinct (map fst m2) \<and> set m1 = set m2"

fun sameZoned :: "error + 'a zoned \<Rightarrow> error + 'a zoned \<Rightarrow> bool" where
  "sameZoned (Inl e1) (Inl e2) = (e1 = e2)"
| "sameZoned (Inr m1) (Inr m2) = sameMap m1 m2"
| "sameZoned (Inl e1) (Inr m2) = False"
| "sameZoned (Inr m1) (Inl e2) = False"

definition sameUpstream :: "GCPReader \<Rightarrow> GCPReader \<Rightarrow> bool" where
  "sameUpstream r1 r2 \<longleftrightarrow>
     project r1 = project r2 \<and>
     (\<forall>ctx f. sameZoned (ListInstances r1 ctx f) (ListInstances r2 ctx f)) \<and>
     ListFirewalls r1 = ListFirewalls r2 \<and>
     ListNetworks r1 = ListNetworks r2 \<and>
     ListHealthChecks r1 = ListHealthChecks r2 \<and>
     (\<forall>ctx f. sameZoned (ListInstanceGroups r1 ctx f) (ListInstanceGroups r2 ctx f)) \<and>
     ListBackendServices r1 = ListBackendServices r2 \<and>
     ListURLMaps r1 = ListURLMaps r2 \<and>
     ListTargetHTTPProxies r1 = ListTargetHTTPProxies r2 \<and>
     ListTargetHTTPSProxies r1 = ListTargetHTTPSProxies r2 \<and>
     ListSSLCertificates r1 = ListSSLCertificates r2 \<and>
     ListGlobalForwardingRules r1 = ListGlobalForwardingRules r2 \<and>
     ListForwardingRules r1 = ListForwardingRules r2 \<and>
     (\<forall>ctx f. sameZoned (ListDisks r1 ctx f) (ListDisks r2 ctx f)) \<and>
     ListBuckets r1 = ListBuckets r2 \<and>
     ListStorageInstances r1 = ListStorageInstances r2 \<and>
     ListManagedZones r1 = ListManagedZones r2 \<and>
     (\<forall>ctx zones. sameZoned (ListResourceRecordSets r1 ctx zones) (ListResourceRecordSets r2 ctx zones)) \<and>
     ListBackendBuckets r1 = ListBackendBuckets r2 \<and>
     ListProjectIAMCustomRoles r1 = ListProjectIAMCustomRoles r2"

fun sameHandles :: "error + resource list \<Rightarrow> error + resource list \<Rightarrow> bool" where
  "sameHandles (Inl e1) (Inl e2) = (e1 = e2)"
| "sameHandles (Inr rs1) (Inr rs2) = (mset (map handle rs1) = mset (map handle rs2))"
| "sameHandles (Inl e1) (Inr rs2) = False"
| "sameHandles (Inr rs1) (Inl e2) = False"

fun sameSequence :: "error + resource list \<Rightarrow> error + resource list \<Rightarrow> bool" where
  "sameSequence (Inl e1) (Inl e2) = (e1 = e2)"
| "sameSequence (Inr rs1) (Inr rs2) = (map handle rs1 = map handle rs2)"
| "sameSequence (Inl e1) (Inr rs2) = False"
| "sameSequence (Inr rs1) (Inl e2) = False"

definition zonedListings :: "ResourceType list" where
  "zonedListings =
     [ComputeInstance, ComputeInstanceGroup, ComputeInstanceIAMPolicy, ComputeDisk, DNSRecordSet]"

definition zonedHandles :: "(string \<Rightarrow> 'a \<Rightarrow> string) \<Rightarrow> string \<Rightarrow> 'a zoned \<Rightarrow> (string \<times> string) list" where
  "zonedHandles ident t m = concat (map (\<lambda>(z, items). map (\<lambda>x. (ident z x, t)) items) m)"

definition keyOrderOnly ::
  "(string \<Rightarrow> 'a \<Rightarrow> string) \<Rightarrow> string \<Rightarrow> 'a zoned \<Rightarrow> 'a zoned \<Rightarrow>
     error + resource list \<Rightarrow> error + resource list \<Rightarrow> bool" where
  "keyOrderOnly ident t m1 m2 o1 o2 \<longleftrightarrow>
     sameMap m1 m2 \<and>
     map_sum id (map handle) o1 = Inr (zonedHandles ident t m1) \<and>
     map_sum id (map handle) o2 = Inr (zonedHandles ident t m2) \<and>
     (map fst m1 = map fst m2 \<or> length m1 \<le> 1 \<longrightarrow> sameSequence o1 o2)"

section \<open>Concrete upstreams\<close>

text \<open>A reader whose every listing fails, and one that lists a small inventory.\<close>

definition downReader :: GCPReader where
  "downReader = \<lparr>project = ''proj'',
     ListInstances = (\<lambda>ctx f. Inl (Cause ''unavailable'')),
     ListFirewalls = (\<lambda>ctx f. Inl (Cause ''unavailable'')),
     ListNetworks = (\<lambda>ctx f. Inl (Cause ''unavailable'')),
     ListHealthChecks = (\<lambda>ctx f. Inl (Cause ''unavailable'')),
     ListInstanceGroups = (\<lambda>ctx f. Inl (Cause ''unavailable'')),
     ListBackendServices = (\<lambda>ctx f. Inl (Cause ''unavailable'')),
     ListURLMaps = (\<lambda>ctx f. Inl (Cause ''unavailable'')),
     ListTargetHTTPProxies = (\<lambda>ctx f. Inl (Cause ''unavailable'')),
     ListTargetHTTPSProxies = (\<lambda>ctx f. Inl (Cause ''unavailable'')),
     ListSSLCertificates = (\<lambda>ctx f. Inl (Cause ''unavailable'')),
     ListGlobalForwardingRules = (\<lambda>ctx f. Inl (Cause ''unavailable'')),
     ListForwardingRules = (\<lambda>ctx f. Inl (Cause ''unavailable'')),
     ListDisks = (\<lambda>ctx f. Inl (Cause ''unavailable'')),
     ListBuckets = (\<lambda>ctx. Inl (Cause ''unavailable'')),
     ListStorageInstances = (\<lambda>ctx f. Inl (Cause ''unavailable'')),
     ListManagedZones = (\<lambda>ctx. Inl (Cause ''unavailable'')),
     ListResourceRecordSets = (\<lambda>ctx zones. Inl (Cause ''unavailable'')),
     ListBackendBuckets = (\<lambda>ctx f. Inl (Cause ''unavailable'')),
     ListProjectIAMCustomRoles = (\<lambda>ctx parent. Inl (Cause ''unavailable''))\<rparr>"

definition fixtureReader :: GCPReader where
  "fixtureReader = downReader
     \<lparr>ListInstances := (\<lambda>ctx f. Inr [(''us-central1-a'', [\<lparr>item.Name = ''web-1''\<rparr>])]),
      ListNetworks := (\<lambda>ctx f. Inr [\<lparr>item.Name = ''default''\<rparr>]),
      ListInstanceGroups := (\<lambda>ctx f. Inr [(''us-central1-a'', [\<lparr>item.Name = ''ig-1''\<rparr>, \<lparr>item.Name = ''ig-2''\<rparr>]), (''us-central1-b'', [])]),
      ListDisks := (\<lambda>ctx f. Inr [(''us-east1-b'', [\<lparr>item.Name = ''disk-1''\<rparr>, \<lparr>item.Name = ''disk-2''\<rparr>])])\<rparr>"



definition dnsReader :: GCPReader where
  "dnsReader = downReader
     \<lparr>ListManagedZones := (\<lambda>ctx. Inr [\<lparr>item.Name = ''z1''\<rparr>]),
      ListResourceRecordSets := (\<lambda>ctx zones.
         if zones = [''z1''] then Inr [(''z1'', [\<lparr>item.Name = ''www'', rrset.Type = ''A''\<rparr>])]
         else Inl (Cause ''unknown zone''))\<rparr>"

definition fixture :: google where
  "fixture = \<lparr>Project = ''proj'', gcpr = fixtureReader\<rparr>"

text \<open>
  One upstream whose disk map and record-set map are ranged over in one order and in
  the other.
\<close>

definition rangedAB :: GCPReader where
  "rangedAB = fixtureReader
     \<lparr>ListDisks := (\<lambda>ctx f. Inr [(''zone-a'', [\<lparr>item.Name = ''disk-1''\<rparr>]), (''zone-b'', [\<lparr>item.Name = ''disk-2''\<rparr>])]),
      ListManagedZones := (\<lambda>ctx. Inr [\<lparr>item.Name = ''z1''\<rparr>, \<lparr>item.Name = ''z2''\<rparr>]),
      ListResourceRecordSets := (\<lambda>ctx zones.
         Inr [(''z1'', [\<lparr>item.Name = ''www'', rrset.Type = ''A''\<rparr>, \<lparr>item.Name = ''mail'', rrset.Type = ''MX''\<rparr>]),
              (''z2'', [\<lparr>item.Name = ''api'', rrset.Type = ''CNAME''\<rparr>])])\<rparr>"

definition rangedBA :: GCPReader where
  "rangedBA = fixtureReader
     \<lparr>ListDisks := (\<lambda>ctx f. Inr [(''zone-b'', [\<lparr>item.Name = ''disk-2''\<rparr>]), (''zone-a'', [\<lparr>item.Name = ''disk-1''\<rparr>])]),
      ListManagedZones := (\<lambda>ctx. Inr [\<lparr>item.Name = ''z1''\<rparr>, \<lparr>item.Name = ''z2''\<rparr>]),
      ListResourceRecordSets := (\<lambda>ctx zones.
         Inr [(''z2'', [\<lparr>item.Name = ''api'', rrset.Type = ''CNAME''\<rparr>]),
              (''z1'', [\<lparr>item.Name = ''www'', rrset.Type = ''A''\<rparr>, \<lparr>item.Name = ''mail'', rrset.Type = ''MX''\<rparr>])])\<rparr>"

section \<open>The append loops\<close>

lemma append_loop:
  "fold (\<lambda>x resources. resources @ [h x]) xs acc = acc @ map h xs"
  by (induction xs arbitrary: acc) simp_all

lemma zoned_loop:
  "fold (\<lambda>(z, items) resources. fold (\<lambda>x resources. resources @ [h z x]) items resources) m acc
     = acc @ concat (map (\<lambda>(z, items). map (h z) items) m)"
  by (induction m arbitrary: acc) (auto simp: append_loop)

section \<open>The scope-partitioned strategies, loop-free\<close>

lemma computeInstance_listed:
  "ListInstances (gcpr g) ctx (initializeFilter filters) = Inr instancesList \<Longrightarrow>
   computeInstance ctx g resourceType filters =
     ([CallListInstances (initializeFilter filters)],
      Inr (concat (map (\<lambda>(z, instances).
             map (\<lambda>instance. NewResource (Project g @ ''/'' @ z @ ''/'' @ item.Name instance) resourceType g) instances)
           instancesList)))"
  by (simp add: computeInstance_def zoned_loop)

lemma computeInstanceIAMPolicy_listed:
  "ListInstances (gcpr g) ctx (initializeFilter filters) = Inr instancesList \<Longrightarrow>
   computeInstanceIAMPolicy ctx g resourceType filters =
     ([CallListInstances (initializeFilter filters)],
      Inr (concat (map (\<lambda>(zone, instances).
             map (\<lambda>instance. NewResource (''projects/'' @ Project g @ ''/zones/'' @ zone @ ''/instances/'' @ item.Name instance) resourceType g) instances)
           instancesList)))"
  by (simp add: computeInstanceIAMPolicy_def zoned_loop)

lemma computeInstanceGroup_listed:
  "ListInstanceGroups (gcpr g) ctx noFilter = Inr instanceGroups \<Longrightarrow>
   computeInstanceGroup ctx g resourceType filters =
     ([CallListInstanceGroups noFilter],
      Inr (concat (map (\<lambda>(z, groups).
             map (\<lambda>group. NewResource (Project g @ ''/'' @ z @ ''/'' @ item.Name group) resourceType g) groups)
           instanceGroups)))"
  by (simp add: computeInstanceGroup_def zoned_loop)

lemma computeDisk_listed:
  "ListDisks (gcpr g) ctx (initializeFilter filters) = Inr disksList \<Longrightarrow>
   computeDisk ctx g resourceType filters =
     ([CallListDisks (initializeFilter filters)],
      Inr (concat (map (\<lambda>(z, disks).
             map (\<lambda>disk. NewResource (z @ ''/'' @ item.Name disk) resourceType g) disks)
           disksList)))"
  by (simp add: computeDisk_def zoned_loop)

lemma computeInstance_outcome:
  "computeInstance ctx g t f =
     ([CallListInstances (initializeFilter f)],
      case ListInstances (gcpr g) ctx (initializeFilter f) of
        Inl err \<Rightarrow> Inl (Wrap err ''unable to list instances from reader'')
      | Inr m \<Rightarrow> Inr (concat (map (\<lambda>(z, items).
            map (\<lambda>x. NewResource (Project g @ ''/'' @ z @ ''/'' @ item.Name x) t g) items) m)))"
  by (simp add: computeInstance_def zoned_loop split: sum.splits)

lemma computeInstanceIAMPolicy_outcome:
  "computeInstanceIAMPolicy ctx g t f =
     ([CallListInstances (initializeFilter f)],
      case ListInstances (gcpr g) ctx (initializeFilter f) of
        Inl err \<Rightarrow> Inl (Wrap err ''unable to list compute instances from reader'')
      | Inr m \<Rightarrow> Inr (concat (map (\<lambda>(z, items).
            map (\<lambda>x. NewResource (''projects/'' @ Project g @ ''/zones/'' @ z @ ''/instances/'' @ item.Name x) t g) items) m)))"
  by (simp add: computeInstanceIAMPolicy_def zoned_loop split: sum.splits)

lemma computeInstanceGroup_outcome:
  "computeInstanceGroup ctx g t f =
     ([CallListInstanceGroups noFilter],
      case ListInstanceGroups (gcpr g) ctx noFilter of
        Inl err \<Rightarrow> Inl (Wrap err ''unable to list instance groups from reader'')
      | Inr m \<Rightarrow> Inr (concat (map (\<lambda>(z, items).
            map (\<lambda>x. NewResource (Project g @ ''/'' @ z @ ''/'' @ item.Name x) t g) items) m)))"
  by (simp add: computeInstanceGroup_def zoned_loop split: sum.splits)

lemma computeDisk_outcome:
  "computeDisk ctx g t f =
     ([CallListDisks (initializeFilter f)],
      case ListDisks (gcpr g) ctx (initializeFilter f) of
        Inl err \<Rightarrow> Inl (Wrap err ''unable to list disks from reader'')
      | Inr m \<Rightarrow> Inr (concat (map (\<lambda>(z, items).
            map (\<lambda>x. NewResource (z @ ''/'' @ item.Name x) t g) items) m)))"
  by (simp add: computeDisk_def zoned_loop split: sum.splits)

lemma recordSetDNS_outcome:
  "recordSetDNS ctx g t f =
     (case ListManagedZones (gcpr g) ctx of
        Inl err \<Rightarrow>
          ([CallListManagedZones],
           Inl (Wrap (Wrap err ''unable to list DNS managed zone from reader'')
                  ''unable to previously fetch managed zones''))
      | Inr zones \<Rightarrow>
          ([CallListManagedZones, CallListResourceRecordSets (map item.Name zones)],
           case ListResourceRecordSets (gcpr g) ctx (map item.Name zones) of
             Inl err \<Rightarrow> Inl (Wrap err ''unable to list resources record se record sett from reader'')
           | Inr m \<Rightarrow> Inr (concat (map (\<lambda>(z, items).
                 map (\<lambda>x. NewResource (z @ ''/'' @ item.Name x @ ''/'' @ rrset.Type x) t g) items) m))))"
  by (simp add: recordSetDNS_def managedZoneDNS_def append_loop zoned_loop comp_def NewResource_def
      split: sum.splits)

lemma zoned_member:
  "(z, items) \<in> set m \<Longrightarrow> x \<in> set items \<Longrightarrow>
     h z x \<in> set (concat (map (\<lambda>(z, items). map (h z) items) m))"
  by force

lemma zoned_length:
  "length (concat (map (\<lambda>(z, items). map (h z) items) m)) = sum_list (map (\<lambda>(z, items). length items) m)"
  by (induction m) auto

text \<open>
  Claim C1. When the instance listing succeeds, for every zone \<open>z\<close> of the listing
  and every instance under it, the plain compute-instance strategy returns a handle
  whose identifier is the project, the zone and the instance name separated by
  slashes, and the compute-instance IAM-policy strategy returns for the same item a
  handle whose identifier is the resource path
  \<^verbatim>\<open>projects/<project>/zones/<zone>/instances/<name>\<close>.
\<close>

theorem instance_identifiers:
  assumes "ListInstances (gcpr g) ctx (initializeFilter filters) = Inr instancesList"
    and "(z, instances) \<in> set instancesList"
    and "instance \<in> set instances"
  shows "(\<exists>rs. snd (computeInstance ctx g resourceType filters) = Inr rs \<and>
            NewResource (Project g @ ''/'' @ z @ ''/'' @ item.Name instance) resourceType g \<in> set rs) \<and>
         (\<exists>rs. snd (computeInstanceIAMPolicy ctx g resourceType filters) = Inr rs \<and>
            NewResource (''projects/'' @ Project g @ ''/zones/'' @ z @ ''/instances/'' @ item.Name instance) resourceType g \<in> set rs)"
proof
  let ?plain = "\<lambda>z instance. NewResource (Project g @ ''/'' @ z @ ''/'' @ item.Name instance) resourceType g"
  have "?plain z instance \<in> set (concat (map (\<lambda>(z, items). map (?plain z) items) instancesList))"
    using assms(2,3) by (rule zoned_member)
  then show "\<exists>rs. snd (computeInstance ctx g resourceType filters) = Inr rs \<and> ?plain z instance \<in> set rs"
    by (simp add: computeInstance_listed [OF assms(1)])
next
  let ?path = "\<lambda>z instance. NewResource (''projects/'' @ Project g @ ''/zones/'' @ z @ ''/instances/'' @ item.Name instance) resourceType g"
  have "?path z instance \<in> set (concat (map (\<lambda>(z, items). map (?path z) items) instancesList))"
    using assms(2,3) by (rule zoned_member)
  then show "\<exists>rs. snd (computeInstanceIAMPolicy ctx g resourceType filters) = Inr rs \<and> ?path z instance \<in> set rs"
    by (simp add: computeInstanceIAMPolicy_listed [OF assms(1)])
qed

theorem instance_identifiers_witness:
  "(\<exists>rs. snd (computeInstance (Ctx 0) fixture ''google_compute_instance'' \<lparr>Tags = []\<rparr>) = Inr rs \<and>
      \<lparr>ID = ''proj/us-central1-a/web-1'', Type = ''google_compute_instance'', Provider = fixture\<rparr> \<in> set rs) \<and>
   (\<exists>rs. snd (computeInstanceIAMPolicy (Ctx 0) fixture ''google_compute_instance'' \<lparr>Tags = []\<rparr>) = Inr rs \<and>
      \<lparr>ID = ''projects/proj/zones/us-central1-a/instances/web-1'', Type = ''google_compute_instance'', Provider = fixture\<rparr> \<in> set rs)"
  using instance_identifiers [of fixture "Ctx 0" "\<lparr>Tags = []\<rparr>"
      "[(''us-central1-a'', [\<lparr>item.Name = ''web-1''\<rparr>])]" "''us-central1-a''" "[\<lparr>item.Name = ''web-1''\<rparr>]"
      "\<lparr>item.Name = ''web-1''\<rparr>" "''google_compute_instance''"]
  by (simp add: fixture_def fixtureReader_def downReader_def NewResource_def)

section \<open>The filter compiler, loop-free\<close>

lemma buffer_loop:
  "fold (\<lambda>t b. b @ ''(labels.'' @ tag.Name t @ ''='' @ tag.Value t @ '') '') ts acc
     = acc @ concat (map (\<lambda>t. labelGroup t @ '' '') ts)"
  by (induction ts arbitrary: acc) (simp_all add: labelGroup_def)

lemma initializeFilter_groups:
  "initializeFilter filters = concat (map (\<lambda>t. labelGroup t @ '' '') (Tags filters))"
  unfolding initializeFilter_def buffer_loop by simp

lemma terminated_groups_joined:
  "gs \<noteq> [] \<Longrightarrow> concat (map (\<lambda>s. s @ sep) gs) = joinWith sep gs @ sep"
  by (induction sep gs rule: joinWith.induct) simp_all

text \<open>
  Claim C3. For a filter with at least one tag, the compiled string holds one group
  \<^verbatim>\<open>(labels.<name>=<value>)\<close> per tag, in the order of the tags, the groups joined
  by single spaces; one more space closes the string.
\<close>

theorem initializeFilter_joined:
  "Tags filters \<noteq> [] \<Longrightarrow>
     initializeFilter filters = joinWith '' '' (map labelGroup (Tags filters)) @ '' ''"
  using terminated_groups_joined [of "map labelGroup (Tags filters)" "'' ''"]
  by (simp add: initializeFilter_groups map_concat comp_def)


theorem initializeFilter_joined_witness:
  "Tags \<lparr>Tags = [\<lparr>tag.Name = ''env'', Value = ''prod''\<rparr>, \<lparr>tag.Name = ''team'', Value = ''ops''\<rparr>]\<rparr> \<noteq> [] \<and>
   initializeFilter \<lparr>Tags = [\<lparr>tag.Name = ''env'', Value = ''prod''\<rparr>, \<lparr>tag.Name = ''team'', Value = ''ops''\<rparr>]\<rparr>
     = ''(labels.env=prod) (labels.team=ops) ''"
  using initializeFilter_joined
    [of "\<lparr>Tags = [\<lparr>tag.Name = ''env'', Value = ''prod''\<rparr>, \<lparr>tag.Name = ''team'', Value = ''ops''\<rparr>]\<rparr>"]
  by (simp add: labelGroup_def)

text \<open>
  Claim C4. The compiled string is empty exactly when the filter has no tag.
\<close>

theorem initializeFilter_empty_iff:
  "initializeFilter filters = [] \<longleftrightarrow> Tags filters = []"
  by (cases "Tags filters") (simp_all add: initializeFilter_groups labelGroup_def)

section \<open>Disks and the handle count\<close>

text \<open>
  Claim C2. When the disk listing succeeds, for every zone of the listing and every
  disk under it the disk strategy returns a handle whose identifier is the zone, a
  slash and the disk name, with no project segment; every handle it returns carries
  the resource type the strategy was called for.
\<close>

theorem disk_identifiers:
  assumes "ListDisks (gcpr g) ctx (initializeFilter filters) = Inr disksList"
    and "(z, disks) \<in> set disksList"
    and "disk \<in> set disks"
  shows "\<exists>rs. snd (computeDisk ctx g resourceType filters) = Inr rs \<and>
           NewResource (z @ ''/'' @ item.Name disk) resourceType g \<in> set rs \<and>
           (\<forall>r\<in>set rs. resource.Type r = resourceType)"
proof -
  let ?h = "\<lambda>z disk. NewResource (z @ ''/'' @ item.Name disk) resourceType g"
  let ?rs = "concat (map (\<lambda>(z, items). map (?h z) items) disksList)"
  have "snd (computeDisk ctx g resourceType filters) = Inr ?rs"
    by (simp add: computeDisk_listed [OF assms(1)])
  moreover have "?h z disk \<in> set ?rs"
    using assms(2,3) by (rule zoned_member)
  moreover have "\<forall>r\<in>set ?rs. resource.Type r = resourceType"
    by (auto simp: NewResource_def)
  ultimately show ?thesis by blast
qed

theorem disk_identifiers_witness:
  "\<exists>rs. snd (computeDisk (Ctx 0) fixture ''google_compute_disk'' \<lparr>Tags = []\<rparr>) = Inr rs \<and>
      \<lparr>ID = ''us-east1-b/disk-2'', Type = ''google_compute_disk'', Provider = fixture\<rparr> \<in> set rs \<and>
      list_all (\<lambda>r. resource.Type r = ''google_compute_disk'') rs"
  using disk_identifiers [of fixture "Ctx 0" "\<lparr>Tags = []\<rparr>"
      "[(''us-east1-b'', [\<lparr>item.Name = ''disk-1''\<rparr>, \<lparr>item.Name = ''disk-2''\<rparr>])]"
      "''us-east1-b''" "[\<lparr>item.Name = ''disk-1''\<rparr>, \<lparr>item.Name = ''disk-2''\<rparr>]"
      "\<lparr>item.Name = ''disk-2''\<rparr>" "''google_compute_disk''"]
  by (simp add: fixture_def fixtureReader_def downReader_def NewResource_def list_all_iff)

lemma disk_scenario:
  "computeDisk (Ctx 0) fixture ''google_compute_disk'' \<lparr>Tags = []\<rparr> =
     ([CallListDisks []],
      Inr [\<lparr>ID = ''us-east1-b/disk-1'', Type = ''google_compute_disk'', Provider = fixture\<rparr>,
           \<lparr>ID = ''us-east1-b/disk-2'', Type = ''google_compute_disk'', Provider = fixture\<rparr>])"
  by (simp add: computeDisk_def initializeFilter_def NewResource_def fixture_def fixtureReader_def downReader_def)

text \<open>
  Claim C7. For each scope-partitioned strategy (compute instances, compute-instance
  IAM policies, instance groups, disks): when its zoned listing succeeds the strategy
  succeeds, and the number of handles is the sum over the scope keys of the number of
  items under each key. A key with no items adds nothing and is no failure.
\<close>

theorem zoned_handle_count:
  "(ListInstances (gcpr g) ctx (initializeFilter filters) = Inr instancesList \<longrightarrow>
      (\<exists>rs. snd (computeInstance ctx g resourceType filters) = Inr rs \<and>
         length rs = sum_list (map (\<lambda>(z, items). length items) instancesList)) \<and>
      (\<exists>rs. snd (computeInstanceIAMPolicy ctx g resourceType filters) = Inr rs \<and>
         length rs = sum_list (map (\<lambda>(z, items). length items) instancesList))) \<and>
   (ListInstanceGroups (gcpr g) ctx noFilter = Inr instanceGroups \<longrightarrow>
      (\<exists>rs. snd (computeInstanceGroup ctx g resourceType filters) = Inr rs \<and>
         length rs = sum_list (map (\<lambda>(z, items). length items) instanceGroups))) \<and>
   (ListDisks (gcpr g) ctx (initializeFilter filters) = Inr disksList \<longrightarrow>
      (\<exists>rs. snd (computeDisk ctx g resourceType filters) = Inr rs \<and>
         length rs = sum_list (map (\<lambda>(z, items). length items) disksList)))"
  by (simp add: computeInstance_listed computeInstanceIAMPolicy_listed
      computeInstanceGroup_listed computeDisk_listed zoned_length)

theorem zoned_handle_count_witness:
  "(\<exists>rs. snd (computeInstance (Ctx 0) fixture ''google_compute_instance'' \<lparr>Tags = []\<rparr>) = Inr rs \<and> length rs = 1) \<and>
   (\<exists>rs. snd (computeInstanceIAMPolicy (Ctx 0) fixture ''google_compute_instance'' \<lparr>Tags = []\<rparr>) = Inr rs \<and> length rs = 1) \<and>
   (\<exists>rs. snd (computeInstanceGroup (Ctx 0) fixture ''google_compute_instance'' \<lparr>Tags = []\<rparr>) = Inr rs \<and> length rs = 2) \<and>
   (\<exists>rs. snd (computeDisk (Ctx 0) fixture ''google_compute_instance'' \<lparr>Tags = []\<rparr>) = Inr rs \<and> length rs = 2)"
proof -
  have i: "ListInstances (gcpr fixture) (Ctx 0) (initializeFilter \<lparr>Tags = []\<rparr>)
      = Inr [(''us-central1-a'', [\<lparr>item.Name = ''web-1''\<rparr>])]"
    by (simp add: fixture_def fixtureReader_def downReader_def)
  have g: "ListInstanceGroups (gcpr fixture) (Ctx 0) noFilter
      = Inr [(''us-central1-a'', [\<lparr>item.Name = ''ig-1''\<rparr>, \<lparr>item.Name = ''ig-2''\<rparr>]), (''us-central1-b'', [])]"
    by (simp add: fixture_def fixtureReader_def downReader_def)
  have d: "ListDisks (gcpr fixture) (Ctx 0) (initializeFilter \<lparr>Tags = []\<rparr>)
      = Inr [(''us-east1-b'', [\<lparr>item.Name = ''disk-1''\<rparr>, \<lparr>item.Name = ''disk-2''\<rparr>])]"
    by (simp add: fixture_def fixtureReader_def downReader_def)
  show ?thesis
    using zoned_handle_count
      [where g = fixture and ctx = "Ctx 0" and filters = "\<lparr>Tags = []\<rparr>"
        and resourceType = "''google_compute_instance''"
        and instancesList = "[(''us-central1-a'', [\<lparr>item.Name = ''web-1''\<rparr>])]"
        and instanceGroups = "[(''us-central1-a'', [\<lparr>item.Name = ''ig-1''\<rparr>, \<lparr>item.Name = ''ig-2''\<rparr>]), (''us-central1-b'', [])]"
        and disksList = "[(''us-east1-b'', [\<lparr>item.Name = ''disk-1''\<rparr>, \<lparr>item.Name = ''disk-2''\<rparr>])]"]
    by (simp add: i g d numeral_2_eq_2)
qed

section \<open>DNS record sets: the two stages\<close>

lemma managedZoneDNS_listed:
  "ListManagedZones (gcpr g) ctx = Inr zones \<Longrightarrow>
   managedZoneDNS ctx g resourceType filters =
     ([CallListManagedZones], Inr (map (\<lambda>zone. NewResource (item.Name zone) resourceType g) zones))"
  by (simp add: managedZoneDNS_def append_loop)

lemma managedZoneDNS_failed:
  "ListManagedZones (gcpr g) ctx = Inl err \<Longrightarrow>
   managedZoneDNS ctx g resourceType filters =
     ([CallListManagedZones], Inl (Wrap err ''unable to list DNS managed zone from reader''))"
  by (simp add: managedZoneDNS_def)

lemma recordSetDNS_listed:
  assumes "ListManagedZones (gcpr g) ctx = Inr zones"
    and "ListResourceRecordSets (gcpr g) ctx (map item.Name zones) = Inr rrsetsList"
  shows "recordSetDNS ctx g resourceType filters =
     ([CallListManagedZones, CallListResourceRecordSets (map item.Name zones)],
      Inr (concat (map (\<lambda>(z, rrsets).
             map (\<lambda>rrset. NewResource (z @ ''/'' @ item.Name rrset @ ''/'' @ rrset.Type rrset) resourceType g) rrsets)
           rrsetsList)))"
  using assms(2)
  by (simp add: recordSetDNS_def managedZoneDNS_listed [OF assms(1)] append_loop zoned_loop
      comp_def NewResource_def)

lemma recordSetDNS_stage_two_failed:
  assumes "ListManagedZones (gcpr g) ctx = Inr zones"
    and "ListResourceRecordSets (gcpr g) ctx (map item.Name zones) = Inl err"
  shows "recordSetDNS ctx g resourceType filters =
     ([CallListManagedZones, CallListResourceRecordSets (map item.Name zones)],
      Inl (Wrap err ''unable to list resources record se record sett from reader''))"
  using assms(2)
  by (simp add: recordSetDNS_def managedZoneDNS_listed [OF assms(1)] append_loop
      comp_def NewResource_def)

lemma record_set_scenario:
  "recordSetDNS (Ctx 0) \<lparr>Project = ''proj'', gcpr = dnsReader\<rparr> ''google_dns_record_set'' \<lparr>Tags = []\<rparr> =
     ([CallListManagedZones, CallListResourceRecordSets [''z1'']],
      Inr [\<lparr>ID = ''z1/www/A'', Type = ''google_dns_record_set'',
            Provider = \<lparr>Project = ''proj'', gcpr = dnsReader\<rparr>\<rparr>])"
  by (simp add: recordSetDNS_def managedZoneDNS_def NewResource_def dnsReader_def downReader_def Let_def)

text \<open>
  Claim C5. When the managed-zone listing of stage one fails, the record-set strategy
  returns that failure wrapped as a failure to fetch the managed zones (its context is
  \<^verbatim>\<open>unable to previously fetch managed zones\<close>, around the context of the managed-zone
  listing), and its only reader call is the managed-zone listing: the record-set
  listing of stage two is not called.
\<close>

theorem recordSetDNS_stage_one_failure:
  assumes "ListManagedZones (gcpr g) ctx = Inl err"
  shows "recordSetDNS ctx g resourceType filters =
           ([CallListManagedZones],
            Inl (Wrap (Wrap err ''unable to list DNS managed zone from reader'')
                   ''unable to previously fetch managed zones'')) \<and>
         (\<forall>zones. CallListResourceRecordSets zones \<notin> set (fst (recordSetDNS ctx g resourceType filters)))"
  by (simp add: recordSetDNS_def managedZoneDNS_failed [OF assms])

theorem recordSetDNS_stage_one_failure_witness:
  "ListManagedZones (gcpr \<lparr>Project = ''proj'', gcpr = downReader\<rparr>) (Ctx 0) = Inl (Cause ''unavailable'') \<and>
   recordSetDNS (Ctx 0) \<lparr>Project = ''proj'', gcpr = downReader\<rparr> ''google_dns_record_set'' \<lparr>Tags = []\<rparr> =
     ([CallListManagedZones],
      Inl (Wrap (Wrap (Cause ''unavailable'') ''unable to list DNS managed zone from reader'')
             ''unable to previously fetch managed zones''))"
proof -
  have h: "ListManagedZones (gcpr \<lparr>Project = ''proj'', gcpr = downReader\<rparr>) (Ctx 0) = Inl (Cause ''unavailable'')"
    by (simp add: downReader_def)
  show ?thesis using h recordSetDNS_stage_one_failure [OF h] by simp
qed





section \<open>Failure contexts\<close>

text \<open>
  Claim C8. The context a strategy wraps a failed listing in is meant to name the
  listing that failed. On a reader whose listings all fail, the storage-bucket strategy
  and the regional forwarding-rule strategy both return the very context of the global
  forwarding-rule strategy.
\<close>

theorem bucket_failure_names_forwarding_rules:
  "snd (storageBucket (Ctx 0) \<lparr>Project = ''proj'', gcpr = downReader\<rparr> ''google_storage_bucket'' \<lparr>Tags = []\<rparr>)
     = Inl (Wrap (Cause ''unavailable'') ''unable to list global forwarding rules from reader'') \<and>
   snd (computeForwardingRule (Ctx 0) \<lparr>Project = ''proj'', gcpr = downReader\<rparr> ''google_compute_forwarding_rule'' \<lparr>Tags = []\<rparr>)
     = Inl (Wrap (Cause ''unavailable'') ''unable to list global forwarding rules from reader'') \<and>
   snd (computeGlobalForwardingRule (Ctx 0) \<lparr>Project = ''proj'', gcpr = downReader\<rparr> ''google_compute_global_forwarding_rule'' \<lparr>Tags = []\<rparr>)
     = Inl (Wrap (Cause ''unavailable'') ''unable to list global forwarding rules from reader'')"
  by (simp add: storageBucket_def computeForwardingRule_def computeGlobalForwardingRule_def downReader_def)

section \<open>Flat listings and the filter\<close>

text \<open>
  Claim C10. For each flat-listing resource type, the registered strategy makes the
  same reader calls and returns the same outcome whatever filter it is given: the
  filter is not read, so a non-empty one is neither applied nor rejected.
\<close>

theorem flat_listing_ignores_filter:
  assumes "rt \<in> set flatListings" and "resources rt = Some strategy"
  shows "strategy ctx g resourceType filters = strategy ctx g resourceType filters'"
  using assms
  by (cases rt)
    (auto simp: flatListings_def computeNetwork_def computeFirewall_def computeHealthCheck_def
      computeBackendService_def computeBackendBucket_def computeURLMap_def
      computeTargetHTTPProxy_def computeTargetHTTPSProxy_def computeSSLCertificate_def
      storageBucket_def sqlDatabaseInstance_def managedZoneDNS_def)

theorem flat_listing_ignores_filter_witness:
  "ComputeNetwork \<in> set flatListings \<and> resources ComputeNetwork = Some computeNetwork \<and>
   computeNetwork (Ctx 0) fixture ''google_compute_network'' \<lparr>Tags = []\<rparr>
     = computeNetwork (Ctx 0) fixture ''google_compute_network'' \<lparr>Tags = [\<lparr>tag.Name = ''env'', Value = ''prod''\<rparr>]\<rparr>"
proof -
  have h1: "ComputeNetwork \<in> set flatListings" by (simp add: flatListings_def)
  have h2: "resources ComputeNetwork = Some computeNetwork" by simp
  show ?thesis
    using h1 h2 flat_listing_ignores_filter [OF h1 h2] by blast
qed

section \<open>Two runs against the same upstream\<close>

lemma sameMap_mset: "sameMap m1 m2 \<Longrightarrow> mset m1 = mset m2"
  unfolding sameMap_def
  by (metis distinct_map set_eq_iff_mset_eq_distinct)

lemma handles_zoned:
  "map handle (concat (map (\<lambda>(z, items). map (\<lambda>x. NewResource (h z x) t g) items) m))
     = concat (map (\<lambda>(z, items). map (\<lambda>x. (h z x, t)) items) m)"
  by (induction m) (auto simp: handle_def NewResource_def)

lemma mset_concat_map:
  "mset m1 = mset m2 \<Longrightarrow> mset (concat (map F m1)) = mset (concat (map F m2))"
proof -
  assume eq: "mset m1 = mset m2"
  have "mset (concat (map F m)) = sum_mset (image_mset (\<lambda>p. mset (F p)) (mset m))" for m
    by (induction m) simp_all
  then show ?thesis using eq by simp
qed

lemma sameMap_handles:
  assumes "sameMap m1 m2"
  shows "mset (map handle (concat (map (\<lambda>(z, items). map (\<lambda>x. NewResource (h z x) t g1) items) m1)))
       = mset (map handle (concat (map (\<lambda>(z, items). map (\<lambda>x. NewResource (h z x) t g2) items) m2)))"
  unfolding handles_zoned
  by (rule mset_concat_map [OF sameMap_mset [OF assms]])

lemma zoned_outcome:
  assumes "sameZoned l1 l2"
  shows "sameHandles
     (case l1 of Inl err \<Rightarrow> Inl (Wrap err msg)
      | Inr m \<Rightarrow> Inr (concat (map (\<lambda>(z, items). map (\<lambda>x. NewResource (h z x) t g1) items) m)))
     (case l2 of Inl err \<Rightarrow> Inl (Wrap err msg)
      | Inr m \<Rightarrow> Inr (concat (map (\<lambda>(z, items). map (\<lambda>x. NewResource (h z x) t g2) items) m)))"
  using assms by (cases l1; cases l2) (simp_all add: sameMap_handles del: mset_map)

lemma sameSequence_sameHandles: "sameSequence a b \<Longrightarrow> sameHandles a b"
  by (cases a; cases b) simp_all

lemma alist_by_keys:
  assumes "distinct (map fst m)"
  shows "map (\<lambda>k. (k, the (map_of m k))) (map fst m) = m"
proof -
  have "(fst p, the (map_of m (fst p))) = p" if "p \<in> set m" for p
  proof (cases p)
    case (Pair k v)
    with that assms have "map_of m k = Some v" by simp
    with Pair show ?thesis by simp
  qed
  then have "map (\<lambda>p. (fst p, the (map_of m (fst p)))) m = m"
    by (simp add: map_idI)
  then show ?thesis by (simp add: comp_def)
qed

lemma sameMap_same_order:
  assumes "sameMap m1 m2" and "map fst m1 = map fst m2"
  shows "m1 = m2"
proof -
  have d1: "distinct (map fst m1)" and d2: "distinct (map fst m2)" and s: "set m1 = set m2"
    using assms(1) by (simp_all add: sameMap_def)
  have "map_of m1 = map_of m2"
    using d1 d2 s by (simp add: map_of_inject_set)
  then show ?thesis
    using alist_by_keys [OF d1] alist_by_keys [OF d2] assms(2) by metis
qed

lemma sameMap_one_key:
  assumes "sameMap m1 m2" and "length m1 \<le> 1"
  shows "m1 = m2"
proof -
  have m: "mset m1 = mset m2" by (rule sameMap_mset [OF assms(1)])
  then have l: "length m2 = length m1" by (metis size_mset)
  show ?thesis
  proof (cases m1)
    case Nil
    with l show ?thesis by simp
  next
    case (Cons p ps)
    with assms(2) have p: "m1 = [p]" by simp
    with l obtain q where q: "m2 = [q]" by (cases m2) auto
    with m p show ?thesis by simp
  qed
qed

lemma handles_zoned_eq:
  "map handle (concat (map (\<lambda>(z, items). map (\<lambda>x. NewResource (h z x) t g) items) m))
     = zonedHandles h t m"
  by (simp add: handles_zoned zonedHandles_def)

lemma keyOrderOnlyI:
  assumes "sameMap m1 m2"
  shows "keyOrderOnly h t m1 m2
     (Inr (concat (map (\<lambda>(z, items). map (\<lambda>x. NewResource (h z x) t g1) items) m1)))
     (Inr (concat (map (\<lambda>(z, items). map (\<lambda>x. NewResource (h z x) t g2) items) m2)))"
  using assms sameMap_same_order [OF assms] sameMap_one_key [OF assms]
  by (auto simp: keyOrderOnly_def handles_zoned_eq)

text \<open>What the relation says, key by key.\<close>

lemma zonedHandles_key_blocks:
  assumes "sameMap m1 m2"
  shows "\<exists>block. zonedHandles h t m1 = concat (map block (map fst m1)) \<and>
                  zonedHandles h t m2 = concat (map block (map fst m2)) \<and>
                  (\<forall>(z, items)\<in>set m1. block z = map (\<lambda>x. (h z x, t)) items)"
proof -
  have d1: "distinct (map fst m1)" and d2: "distinct (map fst m2)" and s: "set m1 = set m2"
    using assms by (simp_all add: sameMap_def)
  have mo: "map_of m1 = map_of m2"
    using d1 d2 s by (simp add: map_of_inject_set)
  let ?block = "\<lambda>z. map (\<lambda>x. (h z x, t)) (the (map_of m1 z))"
  have b: "zonedHandles h t m = concat (map ?block (map fst m))"
    if "distinct (map fst m)" and "map_of m = map_of m1" for m :: "(string \<times> 'a list) list"
  proof -
    have "the (map_of m1 z) = items" if "(z, items) \<in> set m" for z items
      using map_of_is_SomeI [OF \<open>distinct (map fst m)\<close> that] \<open>map_of m = map_of m1\<close> by simp
    then have eq: "map (\<lambda>(z, items). map (\<lambda>x. (h z x, t)) items) m = map ?block (map fst m)"
      by (auto simp: comp_def)
    show ?thesis unfolding zonedHandles_def by (simp only: eq)
  qed
  have "\<forall>(z, items)\<in>set m1. ?block z = map (\<lambda>x. (h z x, t)) items"
    using d1 by auto
  with b [OF d1 refl] b [OF d2 mo [symmetric]] show ?thesis by blast
qed

text \<open>
  Claim C9, as stated, fails: the disk listing below is one Go map, ranged over in its
  two possible orders, and the disk strategy returns the two handles in two different
  orders.
\<close>

theorem disk_order_counterexample:
  "sameUpstream rangedAB rangedBA \<and>
   map_sum id (map ID) (snd (computeDisk (Ctx 0) \<lparr>Project = ''proj'', gcpr = rangedAB\<rparr> ''google_compute_disk'' \<lparr>Tags = []\<rparr>))
     = Inr [''zone-a/disk-1'', ''zone-b/disk-2''] \<and>
   map_sum id (map ID) (snd (computeDisk (Ctx 0) \<lparr>Project = ''proj'', gcpr = rangedBA\<rparr> ''google_compute_disk'' \<lparr>Tags = []\<rparr>))
     = Inr [''zone-b/disk-2'', ''zone-a/disk-1'']"
  by (auto simp: sameUpstream_def rangedAB_def rangedBA_def fixtureReader_def downReader_def sameMap_def
      computeDisk_def initializeFilter_def NewResource_def)

text \<open>
  Claim C9, amended. Against the same upstream (the same errors, sequences and maps,
  the same project) every registered strategy makes the same reader calls and returns
  the same failure or the same handles (identifier and type); a strategy that does not
  range over a map returns them in the same order. A strategy that ranges over a map
  (compute instances, their IAM policies, instance groups, disks, DNS record sets)
  returns the handles of that map key after key in the order its run visits the keys,
  and under a key in the order of the listing: two runs differ at most in the order of
  the keys, and return the same sequence when they visit the keys in the same order or
  the map has at most one key.
\<close>

theorem strategies_same_up_to_key_order:
  assumes up: "sameUpstream (gcpr g1) (gcpr g2)"
    and pr: "Project g1 = Project g2"
    and reg: "resources rt = Some strategy"
  shows "fst (strategy ctx g1 t f) = fst (strategy ctx g2 t f) \<and>
         sameHandles (snd (strategy ctx g1 t f)) (snd (strategy ctx g2 t f)) \<and>
         (rt \<notin> set zonedListings \<longrightarrow>
            sameSequence (snd (strategy ctx g1 t f)) (snd (strategy ctx g2 t f))) \<and>
         (\<forall>m1 m2. ListInstances (gcpr g1) ctx (initializeFilter f) = Inr m1 \<longrightarrow>
            ListInstances (gcpr g2) ctx (initializeFilter f) = Inr m2 \<longrightarrow>
            keyOrderOnly (\<lambda>z x. Project g1 @ ''/'' @ z @ ''/'' @ item.Name x) t m1 m2
              (snd (computeInstance ctx g1 t f)) (snd (computeInstance ctx g2 t f)) \<and>
            keyOrderOnly (\<lambda>z x. ''projects/'' @ Project g1 @ ''/zones/'' @ z @ ''/instances/'' @ item.Name x) t m1 m2
              (snd (computeInstanceIAMPolicy ctx g1 t f)) (snd (computeInstanceIAMPolicy ctx g2 t f))) \<and>
         (\<forall>m1 m2. ListInstanceGroups (gcpr g1) ctx noFilter = Inr m1 \<longrightarrow>
            ListInstanceGroups (gcpr g2) ctx noFilter = Inr m2 \<longrightarrow>
            keyOrderOnly (\<lambda>z x. Project g1 @ ''/'' @ z @ ''/'' @ item.Name x) t m1 m2
              (snd (computeInstanceGroup ctx g1 t f)) (snd (computeInstanceGroup ctx g2 t f))) \<and>
         (\<forall>m1 m2. ListDisks (gcpr g1) ctx (initializeFilter f) = Inr m1 \<longrightarrow>
            ListDisks (gcpr g2) ctx (initializeFilter f) = Inr m2 \<longrightarrow>
            keyOrderOnly (\<lambda>z x. z @ ''/'' @ item.Name x) t m1 m2
              (snd (computeDisk ctx g1 t f)) (snd (computeDisk ctx g2 t f))) \<and>
         (\<forall>zones m1 m2. ListManagedZones (gcpr g1) ctx = Inr zones \<longrightarrow>
            ListResourceRecordSets (gcpr g1) ctx (map item.Name zones) = Inr m1 \<longrightarrow>
            ListResourceRecordSets (gcpr g2) ctx (map item.Name zones) = Inr m2 \<longrightarrow>
            keyOrderOnly (\<lambda>z x. z @ ''/'' @ item.Name x @ ''/'' @ rrset.Type x) t m1 m2
              (snd (recordSetDNS ctx g1 t f)) (snd (recordSetDNS ctx g2 t f)))"
proof -
  have li: "sameZoned (ListInstances (gcpr g1) ctx (initializeFilter f))
      (ListInstances (gcpr g2) ctx (initializeFilter f))"
    and lg: "sameZoned (ListInstanceGroups (gcpr g1) ctx noFilter)
      (ListInstanceGroups (gcpr g2) ctx noFilter)"
    and ld: "sameZoned (ListDisks (gcpr g1) ctx (initializeFilter f))
      (ListDisks (gcpr g2) ctx (initializeFilter f))"
    and mz: "ListManagedZones (gcpr g1) ctx = ListManagedZones (gcpr g2) ctx"
    and rr: "\<And>zones. sameZoned (ListResourceRecordSets (gcpr g1) ctx zones)
      (ListResourceRecordSets (gcpr g2) ctx zones)"
    using up by (simp_all add: sameUpstream_def)
  have flat: "fst (strategy ctx g1 t f) = fst (strategy ctx g2 t f) \<and>
      sameSequence (snd (strategy ctx g1 t f)) (snd (strategy ctx g2 t f))"
    if "rt \<notin> set zonedListings"
    using that reg up
    by (cases rt)
      (auto simp: zonedListings_def sameUpstream_def append_loop Let_def handle_def NewResource_def
        computeFirewall_def computeNetwork_def computeHealthCheck_def computeBackendService_def
        computeBackendBucket_def computeURLMap_def computeTargetHTTPProxy_def
        computeTargetHTTPSProxy_def computeSSLCertificate_def computeGlobalForwardingRule_def
        computeForwardingRule_def storageBucket_def storageBucketIAMPolicy_def
        sqlDatabaseInstance_def managedZoneDNS_def projectIAMCustomRole_def
        split: sum.splits)
  have zoned: "fst (strategy ctx g1 t f) = fst (strategy ctx g2 t f) \<and>
      sameHandles (snd (strategy ctx g1 t f)) (snd (strategy ctx g2 t f))"
    if z: "rt \<in> set zonedListings"
  proof -
    consider "rt = ComputeInstance" | "rt = ComputeInstanceGroup" | "rt = ComputeInstanceIAMPolicy"
      | "rt = ComputeDisk" | "rt = DNSRecordSet"
      using z by (auto simp: zonedListings_def)
    then show ?thesis
    proof cases
      case 1
      with reg have s: "strategy = computeInstance" by simp
      show ?thesis unfolding s computeInstance_outcome pr
        using zoned_outcome [OF li] by simp
    next
      case 2
      with reg have s: "strategy = computeInstanceGroup" by simp
      show ?thesis unfolding s computeInstanceGroup_outcome pr
        using zoned_outcome [OF lg] by simp
    next
      case 3
      with reg have s: "strategy = computeInstanceIAMPolicy" by simp
      show ?thesis unfolding s computeInstanceIAMPolicy_outcome pr
        using zoned_outcome [OF li] by simp
    next
      case 4
      with reg have s: "strategy = computeDisk" by simp
      show ?thesis unfolding s computeDisk_outcome
        using zoned_outcome [OF ld] by simp
    next
      case 5
      with reg have s: "strategy = recordSetDNS" by simp
      show ?thesis
      proof (cases "ListManagedZones (gcpr g2) ctx")
        case (Inl err)
        then show ?thesis unfolding s recordSetDNS_outcome mz by simp
      next
        case (Inr zones)
        then show ?thesis unfolding s recordSetDNS_outcome mz
          using zoned_outcome [OF rr [of "map item.Name zones"]] by simp
      qed
    qed
  qed
  have generic: "fst (strategy ctx g1 t f) = fst (strategy ctx g2 t f) \<and>
      sameHandles (snd (strategy ctx g1 t f)) (snd (strategy ctx g2 t f)) \<and>
      (rt \<notin> set zonedListings \<longrightarrow>
         sameSequence (snd (strategy ctx g1 t f)) (snd (strategy ctx g2 t f)))"
    using flat zoned sameSequence_sameHandles by blast
  have instances: "keyOrderOnly (\<lambda>z x. Project g1 @ ''/'' @ z @ ''/'' @ item.Name x) t m1 m2
        (snd (computeInstance ctx g1 t f)) (snd (computeInstance ctx g2 t f)) \<and>
      keyOrderOnly (\<lambda>z x. ''projects/'' @ Project g1 @ ''/zones/'' @ z @ ''/instances/'' @ item.Name x) t m1 m2
        (snd (computeInstanceIAMPolicy ctx g1 t f)) (snd (computeInstanceIAMPolicy ctx g2 t f))"
    if a1: "ListInstances (gcpr g1) ctx (initializeFilter f) = Inr m1"
      and a2: "ListInstances (gcpr g2) ctx (initializeFilter f) = Inr m2" for m1 m2
  proof -
    from li have sm: "sameMap m1 m2" by (simp add: a1 a2)
    show ?thesis
      unfolding computeInstance_outcome computeInstanceIAMPolicy_outcome a1 a2 pr
      using keyOrderOnlyI [OF sm] by simp
  qed
  have groups: "keyOrderOnly (\<lambda>z x. Project g1 @ ''/'' @ z @ ''/'' @ item.Name x) t m1 m2
        (snd (computeInstanceGroup ctx g1 t f)) (snd (computeInstanceGroup ctx g2 t f))"
    if a1: "ListInstanceGroups (gcpr g1) ctx noFilter = Inr m1"
      and a2: "ListInstanceGroups (gcpr g2) ctx noFilter = Inr m2" for m1 m2
  proof -
    from lg have sm: "sameMap m1 m2" by (simp add: a1 a2)
    show ?thesis
      unfolding computeInstanceGroup_outcome a1 a2 pr
      using keyOrderOnlyI [OF sm] by simp
  qed
  have disks: "keyOrderOnly (\<lambda>z x. z @ ''/'' @ item.Name x) t m1 m2
        (snd (computeDisk ctx g1 t f)) (snd (computeDisk ctx g2 t f))"
    if a1: "ListDisks (gcpr g1) ctx (initializeFilter f) = Inr m1"
      and a2: "ListDisks (gcpr g2) ctx (initializeFilter f) = Inr m2" for m1 m2
  proof -
    from ld have sm: "sameMap m1 m2" by (simp add: a1 a2)
    show ?thesis
      unfolding computeDisk_outcome a1 a2
      using keyOrderOnlyI [OF sm] by simp
  qed
  have records: "keyOrderOnly (\<lambda>z x. z @ ''/'' @ item.Name x @ ''/'' @ rrset.Type x) t m1 m2
        (snd (recordSetDNS ctx g1 t f)) (snd (recordSetDNS ctx g2 t f))"
    if a0: "ListManagedZones (gcpr g1) ctx = Inr zones"
      and a1: "ListResourceRecordSets (gcpr g1) ctx (map item.Name zones) = Inr m1"
      and a2: "ListResourceRecordSets (gcpr g2) ctx (map item.Name zones) = Inr m2" for zones m1 m2
  proof -
    from rr [of "map item.Name zones"] have sm: "sameMap m1 m2" by (simp add: a1 a2)
    have b0: "ListManagedZones (gcpr g2) ctx = Inr zones" using a0 mz by simp
    show ?thesis
      unfolding recordSetDNS_outcome a0 b0
      using keyOrderOnlyI [OF sm] by (simp add: a1 a2)
  qed
  from generic instances groups disks records show ?thesis by blast
qed

theorem strategies_same_up_to_key_order_witness:
  "sameUpstream rangedAB rangedBA \<and>
   resources ComputeNetwork = Some computeNetwork \<and>
   ComputeNetwork \<notin> set zonedListings \<and>
   sameSequence
     (snd (computeNetwork (Ctx 0) \<lparr>Project = ''proj'', gcpr = rangedAB\<rparr> ''t'' \<lparr>Tags = []\<rparr>))
     (snd (computeNetwork (Ctx 0) \<lparr>Project = ''proj'', gcpr = rangedBA\<rparr> ''t'' \<lparr>Tags = []\<rparr>)) \<and>
   keyOrderOnly (\<lambda>z x. ''proj'' @ ''/'' @ z @ ''/'' @ item.Name x) ''t''
     [(''us-central1-a'', [\<lparr>item.Name = ''web-1''\<rparr>])] [(''us-central1-a'', [\<lparr>item.Name = ''web-1''\<rparr>])]
     (snd (computeInstance (Ctx 0) \<lparr>Project = ''proj'', gcpr = rangedAB\<rparr> ''t'' \<lparr>Tags = []\<rparr>))
     (snd (computeInstance (Ctx 0) \<lparr>Project = ''proj'', gcpr = rangedBA\<rparr> ''t'' \<lparr>Tags = []\<rparr>)) \<and>
   keyOrderOnly (\<lambda>z x. z @ ''/'' @ item.Name x) ''t''
     [(''zone-a'', [\<lparr>item.Name = ''disk-1''\<rparr>]), (''zone-b'', [\<lparr>item.Name = ''disk-2''\<rparr>])]
     [(''zone-b'', [\<lparr>item.Name = ''disk-2''\<rparr>]), (''zone-a'', [\<lparr>item.Name = ''disk-1''\<rparr>])]
     (snd (computeDisk (Ctx 0) \<lparr>Project = ''proj'', gcpr = rangedAB\<rparr> ''t'' \<lparr>Tags = []\<rparr>))
     (snd (computeDisk (Ctx 0) \<lparr>Project = ''proj'', gcpr = rangedBA\<rparr> ''t'' \<lparr>Tags = []\<rparr>)) \<and>
   keyOrderOnly (\<lambda>z x. z @ ''/'' @ item.Name x @ ''/'' @ rrset.Type x) ''t''
     [(''z1'', [\<lparr>item.Name = ''www'', rrset.Type = ''A''\<rparr>, \<lparr>item.Name = ''mail'', rrset.Type = ''MX''\<rparr>]),
      (''z2'', [\<lparr>item.Name = ''api'', rrset.Type = ''CNAME''\<rparr>])]
     [(''z2'', [\<lparr>item.Name = ''api'', rrset.Type = ''CNAME''\<rparr>]),
      (''z1'', [\<lparr>item.Name = ''www'', rrset.Type = ''A''\<rparr>, \<lparr>item.Name = ''mail'', rrset.Type = ''MX''\<rparr>])]
     (snd (recordSetDNS (Ctx 0) \<lparr>Project = ''proj'', gcpr = rangedAB\<rparr> ''t'' \<lparr>Tags = []\<rparr>))
     (snd (recordSetDNS (Ctx 0) \<lparr>Project = ''proj'', gcpr = rangedBA\<rparr> ''t'' \<lparr>Tags = []\<rparr>))"
proof -
  let ?g1 = "\<lparr>Project = ''proj'', gcpr = rangedAB\<rparr>" and ?g2 = "\<lparr>Project = ''proj'', gcpr = rangedBA\<rparr>"
  have up: "sameUpstream (gcpr ?g1) (gcpr ?g2)"
    by (auto simp: sameUpstream_def rangedAB_def rangedBA_def fixtureReader_def downReader_def sameMap_def)
  have pr: "Project ?g1 = Project ?g2" by simp
  have n: "resources ComputeNetwork = Some computeNetwork" by simp
  have z: "ComputeNetwork \<notin> set zonedListings" by (simp add: zonedListings_def)
  have r: "ListInstances rangedAB = (\<lambda>ctx f. Inr [(''us-central1-a'', [\<lparr>item.Name = ''web-1''\<rparr>])])"
    "ListInstances rangedBA = (\<lambda>ctx f. Inr [(''us-central1-a'', [\<lparr>item.Name = ''web-1''\<rparr>])])"
    "ListDisks rangedAB = (\<lambda>ctx f. Inr [(''zone-a'', [\<lparr>item.Name = ''disk-1''\<rparr>]), (''zone-b'', [\<lparr>item.Name = ''disk-2''\<rparr>])])"
    "ListDisks rangedBA = (\<lambda>ctx f. Inr [(''zone-b'', [\<lparr>item.Name = ''disk-2''\<rparr>]), (''zone-a'', [\<lparr>item.Name = ''disk-1''\<rparr>])])"
    "ListManagedZones rangedAB = (\<lambda>ctx. Inr [\<lparr>item.Name = ''z1''\<rparr>, \<lparr>item.Name = ''z2''\<rparr>])"
    "ListResourceRecordSets rangedAB = (\<lambda>ctx zones.
         Inr [(''z1'', [\<lparr>item.Name = ''www'', rrset.Type = ''A''\<rparr>, \<lparr>item.Name = ''mail'', rrset.Type = ''MX''\<rparr>]),
              (''z2'', [\<lparr>item.Name = ''api'', rrset.Type = ''CNAME''\<rparr>])])"
    "ListResourceRecordSets rangedBA = (\<lambda>ctx zones.
         Inr [(''z2'', [\<lparr>item.Name = ''api'', rrset.Type = ''CNAME''\<rparr>]),
              (''z1'', [\<lparr>item.Name = ''www'', rrset.Type = ''A''\<rparr>, \<lparr>item.Name = ''mail'', rrset.Type = ''MX''\<rparr>])])"
    by (simp_all add: rangedAB_def rangedBA_def fixtureReader_def downReader_def)
  show ?thesis
    using up n z
      strategies_same_up_to_key_order [OF up pr n, of "Ctx 0" "''t''" "\<lparr>Tags = []\<rparr>"]
    by (simp add: r)
qed


end
